theory Spec2Isabelle
  imports Complex_Main "HOL-Library.Option_ord"
begin

section \<open>Python values used by the handlers\<close>

text \<open>
  Decimal rendering of integers (\<^verbatim>\<open>str(n)\<close>), zero padding (the \<^verbatim>\<open>%02d\<close> family of
  \<^verbatim>\<open>strftime\<close> and \<^verbatim>\<open>isoformat\<close>) and the slice \<^verbatim>\<open>s[-k:]\<close>.
\<close>

definition digit_char :: "nat \<Rightarrow> char" where
  "digit_char n = ''0123456789'' ! (n mod 10)"

definition is_digit :: "char \<Rightarrow> bool" where
  "is_digit c = (c \<in> set ''0123456789'')"

fun str_nat :: "nat \<Rightarrow> string" where
  "str_nat n = (if n < 10 then [digit_char n] else str_nat (n div 10) @ [digit_char (n mod 10)])"

declare str_nat.simps [simp del]

definition str_int :: "int \<Rightarrow> string" where
  "str_int i = (if i < 0 then CHR ''-'' # str_nat (nat (- i)) else str_nat (nat i))"

definition zfill :: "nat \<Rightarrow> string \<Rightarrow> string" where
  "zfill w s = replicate (w - length s) (CHR ''0'') @ s"

text \<open>\<^verbatim>\<open>s[-k:]\<close>: the last \<open>k\<close> characters, the whole string when it is shorter.\<close>

definition slice_last :: "nat \<Rightarrow> string \<Rightarrow> string" where
  "slice_last k s = drop (length s - k) s"

text \<open>
  \<^verbatim>\<open>int(s)\<close> on a string: surrounding whitespace is stripped, one sign is allowed, and the
  digits may be grouped by single underscores. Anything else raises \<^verbatim>\<open>ValueError\<close>
  (\<open>None\<close> here). Only ASCII digits and ASCII whitespace are modelled.
\<close>

definition is_space :: "char \<Rightarrow> bool" where
  "is_space c = (c \<in> set [CHR '' '', CHR 0x09, CHR 0x0A, CHR 0x0B, CHR 0x0C, CHR 0x0D])"

definition strip :: "string \<Rightarrow> string" where
  "strip s = rev (dropWhile is_space (rev (dropWhile is_space s)))"

definition digit_val :: "char \<Rightarrow> nat" where
  "digit_val c = length (takeWhile (\<lambda>d. d \<noteq> c) ''0123456789'')"

fun parse_digits :: "nat \<Rightarrow> bool \<Rightarrow> string \<Rightarrow> nat option" where
  "parse_digits acc prev [] = (if prev then Some acc else None)"
| "parse_digits acc prev (c # cs) =
     (if is_digit c then parse_digits (acc * 10 + digit_val c) True cs
      else if c = CHR ''_'' \<and> prev \<and> cs \<noteq> [] then parse_digits acc False cs
      else None)"

definition py_int :: "string \<Rightarrow> int option" where
  "py_int s =
     (case strip s of
        [] \<Rightarrow> None
      | c # cs \<Rightarrow>
          if c = CHR ''-'' then map_option (\<lambda>n. - int n) (parse_digits 0 False cs)
          else if c = CHR ''+'' then map_option int (parse_digits 0 False cs)
          else map_option int (parse_digits 0 False (c # cs)))"

text \<open>Truthiness of an optional string: \<^verbatim>\<open>None\<close> and the empty string are falsy.\<close>

definition truthy :: "string option \<Rightarrow> bool" where
  "truthy v = (case v of None \<Rightarrow> False | Some s \<Rightarrow> s \<noteq> [])"


section \<open>Clock readings\<close>

text \<open>
  A reading of \<^verbatim>\<open>datetime.now(timezone.utc)\<close>: the fields a Python \<^verbatim>\<open>datetime\<close> stores.
  The ordinal arithmetic follows the standard library (\<^verbatim>\<open>_ymd2ord\<close>, \<^verbatim>\<open>timestamp()\<close> as the
  difference to the epoch). \<^verbatim>\<open>timestamp()\<close> is a float in Python; here the quotient is
  exact, and \<^verbatim>\<open>int(...)\<close> truncates it towards zero.
\<close>

record datetime =
  year :: nat
  month :: nat
  day :: nat
  hour :: nat
  minute :: nat
  second :: nat
  microsecond :: nat

definition is_leap :: "nat \<Rightarrow> bool" where
  "is_leap y = (y mod 4 = 0 \<and> (y mod 100 \<noteq> 0 \<or> y mod 400 = 0))"


definition days_before_year :: "nat \<Rightarrow> int" where
  "days_before_year y =
     (let p = int y - 1 in p * 365 + p div 4 - p div 100 + p div 400)"

definition days_before_month :: "nat \<Rightarrow> nat \<Rightarrow> nat" where
  "days_before_month y m =
     [0, 31, 59, 90, 120, 151, 181, 212, 243, 273, 304, 334] ! (m - 1)
       + (if m > 2 \<and> is_leap y then 1 else 0)"

definition ymd2ord :: "nat \<Rightarrow> nat \<Rightarrow> nat \<Rightarrow> int" where
  "ymd2ord y m d = days_before_year y + int (days_before_month y m) + int d"


definition EPOCH :: datetime where
  "EPOCH = \<lparr>year = 1970, month = 1, day = 1, hour = 0, minute = 0, second = 0, microsecond = 0\<rparr>"

definition total_microseconds :: "datetime \<Rightarrow> int" where
  "total_microseconds t =
     (((ymd2ord (year t) (month t) (day t) - ymd2ord (year EPOCH) (month EPOCH) (day EPOCH)) * 86400
        + int (hour t) * 3600 + int (minute t) * 60 + int (second t)) * 1000000)
      + int (microsecond t)"

text \<open>\<^verbatim>\<open>int(now.timestamp())\<close>\<close>

definition int_timestamp :: "datetime \<Rightarrow> int" where
  "int_timestamp t =
     (let us = total_microseconds t
      in if 0 \<le> us then us div 1000000 else - ((- us) div 1000000))"

text \<open>\<^verbatim>\<open>now.strftime('%Y%m%d')\<close>, with the year padded to four digits as documented.\<close>

definition strftime_Ymd :: "datetime \<Rightarrow> string" where
  "strftime_Ymd t =
     zfill 4 (str_nat (year t)) @ zfill 2 (str_nat (month t)) @ zfill 2 (str_nat (day t))"

text \<open>\<^verbatim>\<open>now.isoformat()\<close> of a UTC reading.\<close>

definition isoformat :: "datetime \<Rightarrow> string" where
  "isoformat t =
     zfill 4 (str_nat (year t)) @ ''-'' @ zfill 2 (str_nat (month t)) @ ''-''
       @ zfill 2 (str_nat (day t)) @ ''T'' @ zfill 2 (str_nat (hour t)) @ '':''
       @ zfill 2 (str_nat (minute t)) @ '':'' @ zfill 2 (str_nat (second t))
       @ (if microsecond t \<noteq> 0 then ''.'' @ zfill 6 (str_nat (microsecond t)) else [])
       @ ''+00:00''"


section \<open>Errors\<close>

text \<open>
  Every way a request can fail in the modelled handlers: an \<^verbatim>\<open>HTTPException\<close> with its
  status code and detail, the 422 answer of the framework for a body that fails the
  request model, and the exceptions no handler catches.
\<close>

datatype error =
    HTTPException nat string
  | RequestValidationError
  | ValidationError
  | TypeError
  | ValueError
  | SMTPError
  | PasswordValueError


section \<open>Schemas (schemas.py)\<close>

datatype status =
    OrderReceived
  | PackagePickup
  | SortingCenter
  | InTransit
  | CustomsClearance
  | OutForDelivery
  | Delivered

fun status_str :: "status \<Rightarrow> string" where
  "status_str OrderReceived = ''Order Received''"
| "status_str PackagePickup = ''Package Pickup''"
| "status_str SortingCenter = ''Sorting Center''"
| "status_str InTransit = ''In Transit''"
| "status_str CustomsClearance = ''Customs Clearance''"
| "status_str OutForDelivery = ''Out for Delivery''"
| "status_str Delivered = ''Delivered''"

record Location =
  lat :: "real option"
  lng :: "real option"
  city :: "string option"

text \<open>One element of \<^verbatim>\<open>timeline\<close>: the dict \<^verbatim>\<open>{"status": ..., "timestamp": ...}\<close>.\<close>

record timeline_entry =
  te_status :: status
  te_timestamp :: string

record ShipmentCreate =
  sender_name :: string
  receiver_name :: string
  receiver_email :: string
  receiver_phone :: "string option"
  address :: string
  country :: string
  weight :: real
  description :: "string option"
  amount :: real
  origin :: string
  destination :: string

text \<open>
  \<^verbatim>\<open>Shipment\<close> repeats the fields of \<^verbatim>\<open>ShipmentCreate\<close> (with the same constraints) and
  adds the tracking code and the lifecycle fields.
\<close>

record Shipment = ShipmentCreate +
  tracking_code :: string
  status :: status
  timeline :: "timeline_entry list"
  location :: "Location option"
  last_update :: "datetime option"
  proof_of_delivery_url :: "string option"

record ShipmentUpdate =
  upd_status :: "status option"
  upd_location :: "Location option"

text \<open>
  The field constraints both models declare: \<^verbatim>\<open>receiver_email: EmailStr\<close>,
  \<^verbatim>\<open>weight: float = Field(..., ge=0)\<close>, \<^verbatim>\<open>amount: float = Field(..., ge=0)\<close>. The syntax
  check of \<^verbatim>\<open>EmailStr\<close> belongs to a library and is the parameter \<open>email_ok\<close>.
\<close>

definition fields_valid :: "(string \<Rightarrow> bool) \<Rightarrow> 'a ShipmentCreate_scheme \<Rightarrow> bool" where
  "fields_valid email_ok p = (email_ok (receiver_email p) \<and> 0 \<le> weight p \<and> 0 \<le> amount p)"


section \<open>The document store\<close>

text \<open>
  Modelled from the spec: the module \<^verbatim>\<open>database\<close> (the object \<^verbatim>\<open>db\<close>) is not among the
  sources. The spec describes "a document store offering insert/find/find-one/update-one
  by filter". The collection \<^verbatim>\<open>db["shipment"]\<close> is the list of its documents in insertion
  order; no handler deletes a document, so a document's \<^verbatim>\<open>_id\<close> is its position, which
  makes \<^verbatim>\<open>_id\<close> unique. \<^verbatim>\<open>find_one\<close> returns the first match, \<^verbatim>\<open>update_one\<close> changes the
  first match and does nothing without one. No uniqueness of \<^verbatim>\<open>tracking_code\<close> is enforced
  by the sources.
\<close>

type_synonym collection = "Shipment list"

definition insert_one :: "collection \<Rightarrow> Shipment \<Rightarrow> collection \<times> nat" where
  "insert_one c doc = (c @ [doc], length c)"

definition find_one_by_tracking_code :: "collection \<Rightarrow> string \<Rightarrow> (nat \<times> Shipment) option" where
  "find_one_by_tracking_code c code =
     find (\<lambda>it. tracking_code (snd it) = code) (enumerate 0 c)"

definition find_one_by_id :: "collection \<Rightarrow> nat \<Rightarrow> (nat \<times> Shipment) option" where
  "find_one_by_id c oid = (if oid < length c then Some (oid, c ! oid) else None)"

text \<open>The dict handed to \<^verbatim>\<open>$set\<close>: a key is present when its field is \<open>Some\<close>.\<close>

record updates =
  set_status :: "status option"
  set_timeline :: "timeline_entry list option"
  set_location :: "Location option"
  set_last_update :: "datetime option"
  set_proof_of_delivery_url :: "string option"

definition no_updates :: updates where
  "no_updates = \<lparr>set_status = None, set_timeline = None, set_location = None,
     set_last_update = None, set_proof_of_delivery_url = None\<rparr>"

definition apply_set :: "updates \<Rightarrow> Shipment \<Rightarrow> Shipment" where
  "apply_set u doc =
     doc\<lparr>status := (case set_status u of Some s \<Rightarrow> s | None \<Rightarrow> status doc),
         timeline := (case set_timeline u of Some es \<Rightarrow> es | None \<Rightarrow> timeline doc),
         location := (case set_location u of Some l \<Rightarrow> Some l | None \<Rightarrow> location doc),
         last_update := (case set_last_update u of Some t \<Rightarrow> Some t | None \<Rightarrow> last_update doc),
         proof_of_delivery_url :=
           (case set_proof_of_delivery_url u of Some p \<Rightarrow> Some p
            | None \<Rightarrow> proof_of_delivery_url doc)\<rparr>"

definition update_one_by_id :: "collection \<Rightarrow> nat \<Rightarrow> updates \<Rightarrow> collection" where
  "update_one_by_id c oid u = (if oid < length c then c[oid := apply_set u (c ! oid)] else c)"

definition update_one_by_tracking_code :: "collection \<Rightarrow> string \<Rightarrow> updates \<Rightarrow> collection" where
  "update_one_by_tracking_code c code u =
     (case find_one_by_tracking_code c code of
        None \<Rightarrow> c
      | Some (oid, doc) \<Rightarrow> c[oid := apply_set u doc])"

text \<open>
  The sort key of \<^verbatim>\<open>.sort("last_update", -1)\<close>: the instant as a number, a missing value
  below every instant.
\<close>

definition last_update_key :: "Shipment \<Rightarrow> int option" where
  "last_update_key doc = map_option total_microseconds (last_update doc)"

text \<open>The running service: the collection and the files written under \<^verbatim>\<open>logs/\<close>.\<close>

record world =
  shipment :: collection
  files :: "string \<rightharpoonup> string"


section \<open>Authentication (main.py)\<close>

record settings =
  SECRET_KEY :: string
  ADMIN_EMAIL :: string
  ADMIN_HASH :: string

record token_claims =
  claim_sub :: string
  claim_exp :: int

record LoginResponse =
  access_token :: string
  token_type :: string

definition ACCESS_TOKEN_EXPIRE_MINUTES :: int where
  "ACCESS_TOKEN_EXPIRE_MINUTES = 60 * 12"

text \<open>
  \<^verbatim>\<open>create_access_token\<close>: \<open>expires_delta\<close> is a duration in microseconds; a zero duration
  is falsy, so the default applies. The signing function \<^verbatim>\<open>jwt.encode\<close> is a parameter; it
  receives the expiry as whole seconds since the epoch.
\<close>

definition create_access_token ::
  "(token_claims \<Rightarrow> string \<Rightarrow> string) \<Rightarrow> settings \<Rightarrow> string \<Rightarrow> int option \<Rightarrow> datetime \<Rightarrow> string" where
  "create_access_token jwt_encode cfg subject expires_delta now =
     (let delta = (case expires_delta of
                     Some d \<Rightarrow> if d \<noteq> 0 then d else ACCESS_TOKEN_EXPIRE_MINUTES * 60 * 1000000
                   | None \<Rightarrow> ACCESS_TOKEN_EXPIRE_MINUTES * 60 * 1000000);
          expire = total_microseconds now + delta
      in jwt_encode \<lparr>claim_sub = subject, claim_exp = expire div 1000000\<rparr> (SECRET_KEY cfg))"

text \<open>
  \<^verbatim>\<open>verify_password\<close> delegates to the password context, the parameter \<open>pwd_verify\<close>:
  it answers with a verdict or raises (the library refuses some secrets, a NUL byte among
  them), and \<^verbatim>\<open>verify_password\<close> passes the exception on.
\<close>

definition verify_password ::
  "(string \<Rightarrow> string \<Rightarrow> error + bool) \<Rightarrow> string \<Rightarrow> string \<Rightarrow> error + bool" where
  "verify_password pwd_verify plain_password hashed_password =
     pwd_verify plain_password hashed_password"

text \<open>
  \<^verbatim>\<open>login\<close>: the condition \<^verbatim>\<open>a or not b\<close> evaluates the password check only when the
  identity matches; nothing catches what the check raises.
\<close>

definition login ::
  "(string \<Rightarrow> string \<Rightarrow> error + bool) \<Rightarrow> (token_claims \<Rightarrow> string \<Rightarrow> string) \<Rightarrow> settings
     \<Rightarrow> string \<Rightarrow> string \<Rightarrow> datetime \<Rightarrow> error + LoginResponse" where
  "login pwd_verify jwt_encode cfg username password now =
     (if username \<noteq> ADMIN_EMAIL cfg then Inl (HTTPException 401 ''Invalid credentials'')
      else (case verify_password pwd_verify password (ADMIN_HASH cfg) of
              Inl e \<Rightarrow> Inl e
            | Inr verified \<Rightarrow>
                if \<not> verified then Inl (HTTPException 401 ''Invalid credentials'')
                else Inr \<lparr>access_token =
                             create_access_token jwt_encode cfg (ADMIN_EMAIL cfg) None now,
                           token_type = ''bearer''\<rparr>))"


section \<open>Shipments (main.py)\<close>

text \<open>
  Each handler takes the clock readings it makes, in the order it makes them. The
  \<^verbatim>\<open>admin\<close> argument of the protected handlers is resolved by the framework before the
  body runs and is not used by any body.
\<close>

definition generate_tracking_code :: "datetime \<Rightarrow> string" where
  "generate_tracking_code now =
     (let suffix = slice_last 4 (str_int (int_timestamp now))
      in ''CC-'' @ strftime_Ymd now @ ''-'' @ suffix)"

definition create_shipment ::
  "(string \<Rightarrow> bool) \<Rightarrow> collection \<Rightarrow> ShipmentCreate \<Rightarrow> datetime \<Rightarrow> datetime \<Rightarrow> datetime
     \<Rightarrow> error + (collection \<times> (nat \<times> string))" where
  "create_shipment email_ok db payload now1 now2 now3 =
     (let code = generate_tracking_code now1;
          doc = \<lparr>sender_name = sender_name payload,
                 receiver_name = receiver_name payload,
                 receiver_email = receiver_email payload,
                 receiver_phone = receiver_phone payload,
                 address = address payload,
                 country = country payload,
                 weight = weight payload,
                 description = description payload,
                 amount = amount payload,
                 origin = origin payload,
                 destination = destination payload,
                 tracking_code = code,
                 status = OrderReceived,
                 timeline = [\<lparr>te_status = OrderReceived, te_timestamp = isoformat now2\<rparr>],
                 location = None,
                 last_update = Some now3,
                 proof_of_delivery_url = None\<rparr>
      in if \<not> fields_valid email_ok doc then Inl ValidationError
         else (case insert_one db doc of
                 (db', inserted_id) \<Rightarrow> Inr (db', (inserted_id, code))))"


definition list_shipments :: "collection \<Rightarrow> (nat \<times> Shipment) list" where
  "list_shipments db =
     take 200 (rev (sort_key (\<lambda>it. last_update_key (snd it)) (enumerate 0 db)))"

definition public_track :: "collection \<Rightarrow> string \<Rightarrow> error + (nat \<times> Shipment)" where
  "public_track db code =
     (case find_one_by_tracking_code db code of
        None \<Rightarrow> Inl (HTTPException 404 ''Tracking Number Not Found'')
      | Some doc \<Rightarrow> Inr doc)"

definition update_shipment ::
  "collection \<Rightarrow> string \<Rightarrow> ShipmentUpdate \<Rightarrow> datetime \<Rightarrow> datetime
     \<Rightarrow> error + (collection \<times> (nat \<times> Shipment))" where
  "update_shipment db code payload now1 now2 =
     (case find_one_by_tracking_code db code of
        None \<Rightarrow> Inl (HTTPException 404 ''Shipment not found'')
      | Some (oid, doc) \<Rightarrow>
          (let updates1 =
                 (case upd_status payload of
                    None \<Rightarrow> no_updates
                  | Some s \<Rightarrow>
                      if status_str s \<noteq> [] then
                        no_updates\<lparr>set_status := Some s,
                          set_timeline :=
                            Some (timeline doc @ [\<lparr>te_status = s, te_timestamp = isoformat now1\<rparr>])\<rparr>
                      else no_updates);
               updates2 =
                 (case upd_location payload of
                    None \<Rightarrow> updates1
                  | Some l \<Rightarrow> updates1\<lparr>set_location := Some l\<rparr>);
               updates3 = updates2\<lparr>set_last_update := Some now2\<rparr>;
               db' = update_one_by_id db oid updates3
           in (case find_one_by_id db' oid of
                 None \<Rightarrow> Inl TypeError
               | Some new_doc \<Rightarrow> Inr (db', new_doc))))"

definition upload_proof :: "world \<Rightarrow> string \<Rightarrow> string \<Rightarrow> string \<Rightarrow> error + (world \<times> string)" where
  "upload_proof w code filename content =
     (let fname = ''logs/'' @ code @ ''-'' @ filename;
          files' = (files w)(fname \<mapsto> content);
          db' = update_one_by_tracking_code (shipment w) code
                  (no_updates\<lparr>set_proof_of_delivery_url := Some (''/'' @ fname)\<rparr>)
      in Inr (\<lparr>shipment = db', files = files'\<rparr>, ''/'' @ fname))"


section \<open>Email notification (main.py)\<close>

record environ =
  SMTP_HOST :: "string option"
  SMTP_PORT :: "string option"
  SMTP_USER :: "string option"
  SMTP_PASS :: "string option"

record EmailMessage =
  msg_from :: string
  msg_to :: string
  msg_subject :: string
  msg_content :: string

text \<open>
  The \<^verbatim>\<open>with smtplib.SMTP(host, port)\<close> block is the parameter \<open>smtp\<close>: given host, port,
  user, password and message it tells whether the block ran through (\<open>True\<close>) or raised.
  Beside its result \<open>send_email\<close> returns the connections it opened.
\<close>

type_synonym smtp = "string \<Rightarrow> int \<Rightarrow> string \<Rightarrow> string \<Rightarrow> EmailMessage \<Rightarrow> bool"

definition send_email ::
  "environ \<Rightarrow> smtp \<Rightarrow> string \<Rightarrow> string \<Rightarrow> string \<Rightarrow> (error + bool) \<times> (string \<times> int) list" where
  "send_email env smtp to_email subject body =
     (case py_int (case SMTP_PORT env of None \<Rightarrow> ''587'' | Some s \<Rightarrow> s) of
        None \<Rightarrow> (Inl ValueError, [])
      | Some port \<Rightarrow>
          if \<not> (truthy (SMTP_HOST env) \<and> truthy (SMTP_USER env) \<and> truthy (SMTP_PASS env))
          then (Inr False, [])
          else (case (SMTP_HOST env, SMTP_USER env, SMTP_PASS env) of
                  (Some host, Some user, Some password) \<Rightarrow>
                    (let msg = \<lparr>msg_from = user, msg_to = to_email, msg_subject = subject,
                                msg_content = body\<rparr>
                     in if smtp host port user password msg then (Inr True, [(host, port)])
                        else (Inl SMTPError, [(host, port)]))
                | _ \<Rightarrow> (Inr False, [])))"

definition notify_receiver ::
  "environ \<Rightarrow> smtp \<Rightarrow> collection \<Rightarrow> string \<Rightarrow> (error + bool) \<times> (string \<times> int) list" where
  "notify_receiver env smtp db code =
     (case find_one_by_tracking_code db code of
        None \<Rightarrow> (Inl (HTTPException 404 ''Shipment not found''), [])
      | Some (oid, doc) \<Rightarrow>
          (let subject = ''CargoConnect Update: '' @ code @ '' - '' @ status_str (status doc);
               body = ''Hello '' @ receiver_name doc @ '','' @ [CHR 0x0A, CHR 0x0A]
                        @ ''Your shipment '' @ code @ '' status is now: ''
                        @ status_str (status doc) @ ''.'' @ [CHR 0x0A]
                        @ ''Track here: '' @ code @ [CHR 0x0A, CHR 0x0A] @ ''CargoConnect''
           in send_email env smtp (receiver_email doc) subject body))"


section \<open>Sequences of mutating requests\<close>

text \<open>
  The three handlers that write to the store, as requests; a request that fails leaves
  the service as it was. The other handlers only read.
\<close>

datatype request =
    ReqCreate ShipmentCreate datetime datetime datetime
  | ReqUpdate string ShipmentUpdate datetime datetime
  | ReqProof string string string

fun handle :: "(string \<Rightarrow> bool) \<Rightarrow> world \<Rightarrow> request \<Rightarrow> world" where
  "handle email_ok w (ReqCreate payload now1 now2 now3) =
     (case create_shipment email_ok (shipment w) payload now1 now2 now3 of
        Inl e \<Rightarrow> w
      | Inr (db', r) \<Rightarrow> w\<lparr>shipment := db'\<rparr>)"
| "handle email_ok w (ReqUpdate code payload now1 now2) =
     (case update_shipment (shipment w) code payload now1 now2 of
        Inl e \<Rightarrow> w
      | Inr (db', r) \<Rightarrow> w\<lparr>shipment := db'\<rparr>)"
| "handle email_ok w (ReqProof code filename content) =
     (case upload_proof w code filename content of
        Inl e \<Rightarrow> w
      | Inr (w', r) \<Rightarrow> w')"

definition serve :: "(string \<Rightarrow> bool) \<Rightarrow> world \<Rightarrow> request list \<Rightarrow> world" where
  "serve email_ok w reqs = foldl (handle email_ok) w reqs"




text \<open>The status field agrees with the newest timeline entry, for every document.\<close>

definition status_matches_timeline :: "collection \<Rightarrow> bool" where
  "status_matches_timeline db =
     list_all (\<lambda>doc. timeline doc \<noteq> [] \<and> te_status (last (timeline doc)) = status doc) db"

section \<open>Sample data\<close>

text \<open>A stand-in for the syntax check of \<^verbatim>\<open>EmailStr\<close>, a request body and clock readings.\<close>

definition has_at :: "string \<Rightarrow> bool" where
  "has_at s = (CHR ''@'' \<in> set s)"

definition payload0 :: ShipmentCreate where
  "payload0 = \<lparr>sender_name = ''Ann'', receiver_name = ''Bob'',
     receiver_email = ''bob@example.com'', receiver_phone = None, address = ''1 Main St'',
     country = ''NL'', weight = 5, description = None, amount = 20, origin = ''AMS'',
     destination = ''NYC''\<rparr>"

definition t0 :: datetime where
  "t0 = \<lparr>year = 2026, month = 11, day = 4, hour = 16, minute = 58, second = 0, microsecond = 0\<rparr>"

definition t1 :: datetime where
  "t1 = \<lparr>year = 2026, month = 11, day = 5, hour = 9, minute = 30, second = 15, microsecond = 250000\<rparr>"

definition t2 :: datetime where
  "t2 = \<lparr>year = 2026, month = 11, day = 7, hour = 12, minute = 0, second = 1, microsecond = 0\<rparr>"

definition reqs0 :: "request list" where
  "reqs0 = [ReqUpdate (generate_tracking_code t0) \<lparr>upd_status = Some InTransit, upd_location = None\<rparr> t1 t1,
            ReqUpdate (generate_tracking_code t0) \<lparr>upd_status = Some Delivered, upd_location = None\<rparr> t2 t2]"

definition doc0 :: Shipment where
  "doc0 = \<lparr>sender_name = ''Ann'', receiver_name = ''Bob'',
     receiver_email = ''bob@example.com'', receiver_phone = None, address = ''1 Main St'',
     country = ''NL'', weight = 5, description = None, amount = 20, origin = ''AMS'',
     destination = ''NYC'', tracking_code = ''CC-20261104-1480'', status = OrderReceived,
     timeline = [\<lparr>te_status = OrderReceived, te_timestamp = ''2026-11-04T16:58:00+00:00''\<rparr>],
     location = None, last_update = Some t0, proof_of_delivery_url = None\<rparr>"







definition env_unconfigured :: environ where
  "env_unconfigured = \<lparr>SMTP_HOST = None, SMTP_PORT = None, SMTP_USER = None, SMTP_PASS = None\<rparr>"

definition env_configured :: environ where
  "env_configured = \<lparr>SMTP_HOST = Some ''smtp.example.com'', SMTP_PORT = None,
     SMTP_USER = Some ''mailer'', SMTP_PASS = Some ''secret''\<rparr>"

definition smtp_down :: smtp where
  "smtp_down host port user password msg = False"

definition smtp_up :: smtp where
  "smtp_up host port user password msg = True"


section \<open>Decimal rendering and clock readings\<close>
















section \<open>Lookups and updates in the collection\<close>

lemma status_str_nonempty: "status_str s \<noteq> []"
  by (cases s) simp_all

lemma find_enumerate_Some:
  "find (\<lambda>it. P (snd it)) (enumerate 0 c) = Some (i, d)
     \<longleftrightarrow> i < length c \<and> d = c ! i \<and> P d \<and> (\<forall>j<i. \<not> P (c ! j))"
proof
  assume "find (\<lambda>it. P (snd it)) (enumerate 0 c) = Some (i, d)"
  then obtain k where k: "k < length c" "P (snd (enumerate 0 c ! k))"
      "(i, d) = enumerate 0 c ! k" "\<forall>j<k. \<not> P (snd (enumerate 0 c ! j))"
    by (auto simp: find_Some_iff)
  from k(1,3) have ik: "i = k" "d = c ! k" by (simp_all add: nth_enumerate_eq)
  from k(4) k(1) have "\<forall>j<k. \<not> P (c ! j)" by (simp add: nth_enumerate_eq)
  with k ik show "i < length c \<and> d = c ! i \<and> P d \<and> (\<forall>j<i. \<not> P (c ! j))"
    by (simp add: nth_enumerate_eq)
next
  assume a: "i < length c \<and> d = c ! i \<and> P d \<and> (\<forall>j<i. \<not> P (c ! j))"
  then have "i < length (enumerate 0 c)" "P (snd (enumerate 0 c ! i))"
    "(i, d) = enumerate 0 c ! i" "\<forall>j<i. \<not> P (snd (enumerate 0 c ! j))"
    by (auto simp: nth_enumerate_eq)
  then show "find (\<lambda>it. P (snd it)) (enumerate 0 c) = Some (i, d)"
    unfolding find_Some_iff by blast
qed

lemma find_one_Some:
  "find_one_by_tracking_code c code = Some (i, d)
     \<longleftrightarrow> i < length c \<and> d = c ! i \<and> tracking_code (c ! i) = code
          \<and> (\<forall>j<i. tracking_code (c ! j) \<noteq> code)"
  unfolding find_one_by_tracking_code_def
  using find_enumerate_Some [of "\<lambda>d. tracking_code d = code" c i d] by auto

lemma find_one_None:
  "find_one_by_tracking_code c code = None \<longleftrightarrow> (\<forall>d \<in> set c. tracking_code d \<noteq> code)"
proof -
  have "set c = snd ` set (enumerate 0 c)"
    by (metis map_snd_enumerate set_map)
  then have "(\<exists>d\<in>set c. tracking_code d = code)
      \<longleftrightarrow> (\<exists>d\<in>snd ` set (enumerate 0 c). tracking_code d = code)"
    by simp
  also have "\<dots> \<longleftrightarrow> (\<exists>x\<in>set (enumerate 0 c). tracking_code (snd x) = code)"
    by blast
  finally show ?thesis
    unfolding find_one_by_tracking_code_def find_None_iff by blast
qed

lemma find_one_cases:
  obtains (absent) "find_one_by_tracking_code c code = None"
    "\<forall>d \<in> set c. tracking_code d \<noteq> code"
  | (present) i where "find_one_by_tracking_code c code = Some (i, c ! i)" "i < length c"
    "tracking_code (c ! i) = code" "\<forall>j<i. tracking_code (c ! j) \<noteq> code"
proof (cases "find_one_by_tracking_code c code")
  case None
  then show ?thesis using absent by (simp add: find_one_None)
next
  case (Some r)
  obtain i d where r: "r = (i, d)" by (cases r)
  with Some have f: "find_one_by_tracking_code c code = Some (i, d)" by simp
  then have "i < length c" "d = c ! i" "tracking_code (c ! i) = code"
    "\<forall>j<i. tracking_code (c ! j) \<noteq> code"
    by (auto simp: find_one_Some)
  with f show ?thesis using present [of i] by simp
qed

text \<open>Lookups depend on the tracking codes alone.\<close>

lemma find_one_same_codes:
  assumes "length c' = length c"
    and "\<forall>j<length c. tracking_code (c' ! j) = tracking_code (c ! j)"
    and "find_one_by_tracking_code c code = Some (i, d)"
  shows "find_one_by_tracking_code c' code = Some (i, c' ! i)"
  using assms by (auto simp: find_one_Some)



lemma tracking_code_apply_set [simp]: "tracking_code (apply_set u doc) = tracking_code doc"
  by (simp add: apply_set_def)

lemma update_shipment_found:
  assumes "find_one_by_tracking_code db code = Some (i, d)"
  shows "update_shipment db code payload now1 now2 =
    Inr (db[i := d\<lparr>status := (case upd_status payload of Some s \<Rightarrow> s | None \<Rightarrow> status d),
                     timeline := timeline d @ (case upd_status payload of
                        Some s \<Rightarrow> [\<lparr>te_status = s, te_timestamp = isoformat now1\<rparr>] | None \<Rightarrow> []),
                     location := (case upd_location payload of Some l \<Rightarrow> Some l | None \<Rightarrow> location d),
                     last_update := Some now2\<rparr>],
         (i, d\<lparr>status := (case upd_status payload of Some s \<Rightarrow> s | None \<Rightarrow> status d),
                     timeline := timeline d @ (case upd_status payload of
                        Some s \<Rightarrow> [\<lparr>te_status = s, te_timestamp = isoformat now1\<rparr>] | None \<Rightarrow> []),
                     location := (case upd_location payload of Some l \<Rightarrow> Some l | None \<Rightarrow> location d),
                     last_update := Some now2\<rparr>))"
proof -
  from assms have i: "i < length db" and d: "d = db ! i" by (simp_all add: find_one_Some)
  show ?thesis
    using i d assms
    by (simp add: update_shipment_def update_one_by_id_def find_one_by_id_def apply_set_def
        no_updates_def status_str_nonempty Let_def split: option.split)
qed

lemma update_shipment_absent:
  assumes "find_one_by_tracking_code db code = None"
  shows "update_shipment db code payload now1 now2 = Inl (HTTPException 404 ''Shipment not found'')"
  using assms by (simp add: update_shipment_def)


section \<open>Effect of requests on stored documents\<close>

lemma create_shipment_result:
  assumes "create_shipment email_ok db payload now1 now2 now3 = Inr (db', r)"
  shows "\<exists>doc. db' = db @ [doc] \<and> r = (length db, generate_tracking_code now1)
    \<and> tracking_code doc = generate_tracking_code now1 \<and> status doc = OrderReceived
    \<and> timeline doc = [\<lparr>te_status = OrderReceived, te_timestamp = isoformat now2\<rparr>]
    \<and> last_update doc = Some now3 \<and> location doc = None \<and> proof_of_delivery_url doc = None
    \<and> ShipmentCreate.truncate doc = payload"
  using assms
  by (auto simp: create_shipment_def insert_one_def Let_def ShipmentCreate.truncate_def
      split: if_splits)


lemma upload_proof_result:
  "\<exists>w'. upload_proof w code filename content = Inr (w', ''/logs/'' @ code @ ''-'' @ filename)
     \<and> files w' = (files w)(''logs/'' @ code @ ''-'' @ filename \<mapsto> content)
     \<and> shipment w' = update_one_by_tracking_code (shipment w) code
          (no_updates\<lparr>set_proof_of_delivery_url := Some (''/logs/'' @ code @ ''-'' @ filename)\<rparr>)"
  by (simp add: upload_proof_def Let_def)

lemma update_one_by_tracking_code_nth:
  "length (update_one_by_tracking_code db code u) = length db"
  "j < length db \<Longrightarrow> set_timeline u = None \<Longrightarrow> set_status u = None \<Longrightarrow>
     timeline (update_one_by_tracking_code db code u ! j) = timeline (db ! j)
     \<and> status (update_one_by_tracking_code db code u ! j) = status (db ! j)
     \<and> tracking_code (update_one_by_tracking_code db code u ! j) = tracking_code (db ! j)"
proof -
  show "length (update_one_by_tracking_code db code u) = length db"
    by (simp add: update_one_by_tracking_code_def split: option.split)
  assume j: "j < length db" and u: "set_timeline u = None" "set_status u = None"
  show "timeline (update_one_by_tracking_code db code u ! j) = timeline (db ! j)
     \<and> status (update_one_by_tracking_code db code u ! j) = status (db ! j)
     \<and> tracking_code (update_one_by_tracking_code db code u ! j) = tracking_code (db ! j)"
  proof (cases rule: find_one_cases [of db code])
    case absent
    then show ?thesis by (simp add: update_one_by_tracking_code_def)
  next
    case (present i)
    then show ?thesis
      using j u by (simp add: update_one_by_tracking_code_def nth_list_update apply_set_def)
  qed
qed





lemma serve_Cons: "serve email_ok w (req # reqs) = serve email_ok (handle email_ok w req) reqs"
  by (simp add: serve_def)





lemma list_all_update:
  "list_all P xs \<Longrightarrow> P x \<Longrightarrow> list_all P (xs[i := x])"
  using set_update_subset_insert [of xs i x] by (auto simp: list_all_iff)

lemma handle_status_matches:
  assumes inv: "status_matches_timeline (shipment w)"
  shows "status_matches_timeline (shipment (handle email_ok w req))"
proof (cases req)
  case (ReqCreate payload now1 now2 now3)
  show ?thesis
  proof (cases "create_shipment email_ok (shipment w) payload now1 now2 now3")
    case (Inl e)
    with ReqCreate inv show ?thesis by simp
  next
    case (Inr res)
    obtain db' r where res: "res = (db', r)" by (cases res)
    from create_shipment_result [OF Inr [unfolded res]] obtain doc where
      "db' = shipment w @ [doc]" "status doc = OrderReceived"
      "timeline doc = [\<lparr>te_status = OrderReceived, te_timestamp = isoformat now2\<rparr>]"
      by auto
    with ReqCreate Inr res inv show ?thesis
      by (simp add: status_matches_timeline_def)
  qed
next
  case (ReqUpdate code payload now1 now2)
  show ?thesis
  proof (cases rule: find_one_cases [of "shipment w" code])
    case absent
    with ReqUpdate inv show ?thesis by (simp add: update_shipment_absent)
  next
    case (present i)
    let ?d = "shipment w ! i"
    from inv present(2) have d: "timeline ?d \<noteq> []" "te_status (last (timeline ?d)) = status ?d"
      by (simp_all add: status_matches_timeline_def list_all_length)
    show ?thesis
      using ReqUpdate inv d
      unfolding status_matches_timeline_def
      by (simp add: update_shipment_found [OF present(1)] list_all_update split: option.split)
  qed
next
  case (ReqProof code filename content)
  let ?u = "no_updates\<lparr>set_proof_of_delivery_url := Some (''/logs/'' @ code @ ''-'' @ filename)\<rparr>"
  have u: "set_timeline ?u = None" "set_status ?u = None" by (simp_all add: no_updates_def)
  from upload_proof_result [of w code filename content] obtain w' where
    w': "upload_proof w code filename content = Inr (w', ''/logs/'' @ code @ ''-'' @ filename)"
      "shipment w' = update_one_by_tracking_code (shipment w) code ?u"
    by blast
  have "status_matches_timeline (shipment w')"
    using inv update_one_by_tracking_code_nth(2) [OF _ u, of _ "shipment w" code]
    by (simp add: status_matches_timeline_def list_all_length w'(2)
        update_one_by_tracking_code_nth(1))
  with ReqProof w'(1) show ?thesis by simp
qed

lemma serve_status_matches:
  "status_matches_timeline (shipment w) \<Longrightarrow> status_matches_timeline (shipment (serve email_ok w reqs))"
proof (induction reqs arbitrary: w)
  case Nil
  then show ?case by (simp add: serve_def)
next
  case (Cons req reqs)
  then show ?case by (simp add: serve_Cons handle_status_matches)
qed


section \<open>Sending mail\<close>

lemma send_email_unconfigured:
  assumes "py_int (case SMTP_PORT env of None \<Rightarrow> ''587'' | Some s \<Rightarrow> s) = Some port"
    and "\<not> (truthy (SMTP_HOST env) \<and> truthy (SMTP_USER env) \<and> truthy (SMTP_PASS env))"
  shows "send_email env smtp to_email subject body = (Inr False, [])"
  using assms by (simp add: send_email_def)

lemma send_email_configured:
  assumes "py_int (case SMTP_PORT env of None \<Rightarrow> ''587'' | Some s \<Rightarrow> s) = Some port"
    and "SMTP_HOST env = Some host" "host \<noteq> []"
    and "SMTP_USER env = Some user" "user \<noteq> []"
    and "SMTP_PASS env = Some password" "password \<noteq> []"
  shows "send_email env smtp to_email subject body =
    (if smtp host port user password
          \<lparr>msg_from = user, msg_to = to_email, msg_subject = subject, msg_content = body\<rparr>
     then (Inr True, [(host, port)]) else (Inl SMTPError, [(host, port)]))"
  using assms by (simp add: send_email_def truthy_def Let_def)


section \<open>The sample data evaluated\<close>

lemma str_nat_samples:
  "str_nat 2026 = ''2026''" "str_nat 11 = ''11''" "str_nat 4 = ''4''"
  "str_nat 1793811480 = ''1793811480''"
  by (simp_all add: str_nat.simps digit_char_def)

lemma str_nat_clock_samples: "str_nat 16 = ''16''" "str_nat 58 = ''58''" "str_nat 0 = ''0''"
  by (simp_all add: str_nat.simps digit_char_def)

lemma total_microseconds_samples:
  "total_microseconds t0 = 1793811480000000"
  "total_microseconds t1 = 1793871015250000"
  "total_microseconds t2 = 1794052801000000"
  by (simp_all add: total_microseconds_def t0_def t1_def t2_def ymd2ord_def EPOCH_def
        days_before_year_def days_before_month_def is_leap_def)





lemma isoformat_t0: "isoformat t0 = ''2026-11-04T16:58:00+00:00''"
  by (simp add: isoformat_def zfill_def t0_def str_nat_samples str_nat_clock_samples)

text \<open>
  In the first 1000 seconds after the epoch the decimal rendering of the seconds has fewer
  than four digits, and so has the suffix of the code.
\<close>

lemma generate_tracking_code_early_clock:
  "generate_tracking_code \<lparr>year = 1970, month = 1, day = 1, hour = 0, minute = 0, second = 5,
       microsecond = 0\<rparr> = ''CC-19700101-5''"
proof -
  let ?t = "\<lparr>year = 1970, month = 1, day = 1, hour = 0, minute = 0, second = 5, microsecond = 0\<rparr>"
  have "int_timestamp ?t = 5"
    by (simp add: int_timestamp_def total_microseconds_def ymd2ord_def EPOCH_def
        days_before_year_def days_before_month_def is_leap_def)
  then have "slice_last 4 (str_int (int_timestamp ?t)) = ''5''"
    by (simp add: str_int_def slice_last_def str_nat.simps digit_char_def)
  moreover have "str_nat 1970 = ''1970''" "str_nat 1 = ''1''"
    by (simp_all add: str_nat.simps digit_char_def)
  then have "strftime_Ymd ?t = ''19700101''"
    by (simp add: strftime_Ymd_def zfill_def)
  ultimately show ?thesis
    by (simp add: generate_tracking_code_def)
qed

lemma last_update_key_samples:
  "last_update_key doc0 = Some 1793811480000000"
  "last_update_key (doc0\<lparr>last_update := Some t1\<rparr>) = Some 1793871015250000"
  "last_update_key (doc0\<lparr>last_update := Some t2\<rparr>) = Some 1794052801000000"
  by (simp_all add: last_update_key_def doc0_def total_microseconds_samples)

lemma enumerate_three: "enumerate 0 [a, b, c] = [(0, a), (1, b), (2, c)]"
  by (simp add: enumerate_eq_zip upt_rec)

lemma py_int_587: "py_int ''587'' = Some 587"
  by (simp add: py_int_def strip_def is_space_def is_digit_def digit_val_def)

lemma py_int_bad: "py_int ''smtp'' = None"
  by (simp add: py_int_def strip_def is_space_def is_digit_def digit_val_def)

lemma env_configured_fields:
  "SMTP_HOST env_configured = Some ''smtp.example.com''"
  "SMTP_USER env_configured = Some ''mailer''"
  "SMTP_PASS env_configured = Some ''secret''"
  "py_int (case SMTP_PORT env_configured of None \<Rightarrow> ''587'' | Some s \<Rightarrow> s) = Some 587"
  by (simp_all add: env_configured_def py_int_587)

lemma send_email_env_configured:
  "send_email env_configured smtp to_email subject body =
    (if smtp ''smtp.example.com'' 587 ''mailer'' ''secret''
          \<lparr>msg_from = ''mailer'', msg_to = to_email, msg_subject = subject, msg_content = body\<rparr>
     then (Inr True, [(''smtp.example.com'', 587)])
     else (Inl SMTPError, [(''smtp.example.com'', 587)]))"
  by (simp add: send_email_def truthy_def Let_def env_configured_fields)

text \<open>
  The port setting is parsed before the configuration is looked at: a port that is not a
  number raises even when no host is configured.
\<close>

lemma send_email_bad_port:
  "send_email (env_unconfigured\<lparr>SMTP_PORT := Some ''smtp''\<rparr>) smtp to_email subject body
     = (Inl ValueError, [])"
  by (simp add: send_email_def py_int_bad)





section \<open>Timeline (C1)\<close>





section \<open>Update of status and location (C2)\<close>

text \<open>
  C2. An update addressed to a tracking code no stored document carries fails with 404.
  Otherwise it succeeds on the first document with that code: a supplied status becomes
  the status and adds one timeline entry with that status and the clock reading; a supplied
  location replaces the stored location as a whole; \<open>last_update\<close> becomes the clock
  reading in every case; nothing else changes; the stored document is what is returned.
\<close>

theorem update_status_and_location:
  "((\<forall>doc \<in> set db. tracking_code doc \<noteq> code) \<longrightarrow>
      update_shipment db code payload now1 now2 = Inl (HTTPException 404 ''Shipment not found''))
   \<and> ((\<exists>doc \<in> set db. tracking_code doc = code) \<longrightarrow>
      (\<exists>i d'. i < length db \<and> tracking_code (db ! i) = code
        \<and> update_shipment db code payload now1 now2 = Inr (db[i := d'], (i, d'))
        \<and> db[i := d'] ! i = d'
        \<and> (case upd_status payload of
              Some s \<Rightarrow> status d' = s
                \<and> timeline d' = timeline (db ! i) @ [\<lparr>te_status = s, te_timestamp = isoformat now1\<rparr>]
            | None \<Rightarrow> status d' = status (db ! i) \<and> timeline d' = timeline (db ! i))
        \<and> (case upd_location payload of
              Some l \<Rightarrow> location d' = Some l
            | None \<Rightarrow> location d' = location (db ! i))
        \<and> last_update d' = Some now2
        \<and> tracking_code d' = tracking_code (db ! i)
        \<and> proof_of_delivery_url d' = proof_of_delivery_url (db ! i)
        \<and> ShipmentCreate.truncate d' = ShipmentCreate.truncate (db ! i)))"
proof (cases rule: find_one_cases [of db code])
  case absent
  then show ?thesis by (simp add: update_shipment_absent)
next
  case (present i)
  let ?d' = "(db ! i)\<lparr>status := (case upd_status payload of Some s \<Rightarrow> s | None \<Rightarrow> status (db ! i)),
                     timeline := timeline (db ! i) @ (case upd_status payload of
                        Some s \<Rightarrow> [\<lparr>te_status = s, te_timestamp = isoformat now1\<rparr>] | None \<Rightarrow> []),
                     location := (case upd_location payload of Some l \<Rightarrow> Some l | None \<Rightarrow> location (db ! i)),
                     last_update := Some now2\<rparr>"
  have r: "update_shipment db code payload now1 now2 = Inr (db[i := ?d'], (i, ?d'))"
    by (rule update_shipment_found [OF present(1)])
  have "i < length db \<and> tracking_code (db ! i) = code
        \<and> update_shipment db code payload now1 now2 = Inr (db[i := ?d'], (i, ?d'))
        \<and> db[i := ?d'] ! i = ?d'
        \<and> (case upd_status payload of
              Some s \<Rightarrow> status ?d' = s
                \<and> timeline ?d' = timeline (db ! i) @ [\<lparr>te_status = s, te_timestamp = isoformat now1\<rparr>]
            | None \<Rightarrow> status ?d' = status (db ! i) \<and> timeline ?d' = timeline (db ! i))
        \<and> (case upd_location payload of
              Some l \<Rightarrow> location ?d' = Some l
            | None \<Rightarrow> location ?d' = location (db ! i))
        \<and> last_update ?d' = Some now2
        \<and> tracking_code ?d' = tracking_code (db ! i)
        \<and> proof_of_delivery_url ?d' = proof_of_delivery_url (db ! i)
        \<and> ShipmentCreate.truncate ?d' = ShipmentCreate.truncate (db ! i)"
    using present(2,3) r
    by (simp add: ShipmentCreate.truncate_def split: option.split)
  then show ?thesis
    using present(2,3) by (intro conjI impI exI [of _ i] exI [of _ ?d']) auto
qed

theorem update_status_and_location_witness:
  "update_shipment [] ''CC-20261104-1480'' \<lparr>upd_status = Some InTransit, upd_location = None\<rparr> t1 t2
      = Inl (HTTPException 404 ''Shipment not found'')
   \<and> (\<exists>d'. update_shipment [doc0] ''CC-20261104-1480''
              \<lparr>upd_status = Some InTransit, upd_location = None\<rparr> t1 t2 = Inr ([d'], (0, d'))
         \<and> status d' = InTransit \<and> length (timeline d') = 2 \<and> last_update d' = Some t2
         \<and> location d' = None)"
proof -
  let ?u = "\<lparr>upd_status = Some InTransit, upd_location = None\<rparr>"
  have a: "update_shipment [] ''CC-20261104-1480'' ?u t1 t2 = Inl (HTTPException 404 ''Shipment not found'')"
    using update_status_and_location [of "[]" "''CC-20261104-1480''" ?u t1 t2] by simp
  have "\<exists>doc \<in> set [doc0]. tracking_code doc = ''CC-20261104-1480''"
    by (simp add: doc0_def)
  with update_status_and_location [of "[doc0]" "''CC-20261104-1480''" ?u t1 t2]
  obtain i d' where "i < length [doc0]"
    "update_shipment [doc0] ''CC-20261104-1480'' ?u t1 t2 = Inr ([doc0][i := d'], (i, d'))"
    "status d' = InTransit"
    "timeline d' = timeline ([doc0] ! i) @ [\<lparr>te_status = InTransit, te_timestamp = isoformat t1\<rparr>]"
    "location d' = location ([doc0] ! i)" "last_update d' = Some t2"
    by auto
  then have "update_shipment [doc0] ''CC-20261104-1480'' ?u t1 t2 = Inr ([d'], (0, d'))
      \<and> status d' = InTransit \<and> length (timeline d') = 2 \<and> last_update d' = Some t2
      \<and> location d' = None"
    by (simp add: doc0_def)
  with a show ?thesis by blast
qed


section \<open>Creation (C3)\<close>




section \<open>Public lookup (C4)\<close>

text \<open>
  C4. The public lookup fails only with the 404 "Tracking Number Not Found", and exactly
  when no stored document carries the code. For the code of a stored shipment it returns
  a stored document with that code as it is stored, every field included: the first one,
  which is the shipment itself unless an earlier document shares its code.
\<close>

theorem public_track_not_found_or_full_record:
  "((\<forall>doc \<in> set db. tracking_code doc \<noteq> code) \<longrightarrow>
      public_track db code = Inl (HTTPException 404 ''Tracking Number Not Found''))
   \<and> (\<forall>e. public_track db code = Inl e \<longrightarrow>
        e = HTTPException 404 ''Tracking Number Not Found''
        \<and> (\<forall>doc \<in> set db. tracking_code doc \<noteq> code))
   \<and> (\<forall>i<length db. \<exists>j\<le>i.
        public_track db (tracking_code (db ! i)) = Inr (j, db ! j)
        \<and> tracking_code (db ! j) = tracking_code (db ! i)
        \<and> ((\<forall>k<i. tracking_code (db ! k) \<noteq> tracking_code (db ! i)) \<longrightarrow> j = i))"
proof (intro conjI allI impI)
  assume "\<forall>doc \<in> set db. tracking_code doc \<noteq> code"
  then have "find_one_by_tracking_code db code = None" by (simp add: find_one_None)
  then show "public_track db code = Inl (HTTPException 404 ''Tracking Number Not Found'')"
    by (simp add: public_track_def)
next
  fix e assume e: "public_track db code = Inl e"
  then have n: "find_one_by_tracking_code db code = None"
    by (simp add: public_track_def split: option.splits)
  with e show "e = HTTPException 404 ''Tracking Number Not Found''"
    by (simp add: public_track_def)
  from n show "\<forall>doc \<in> set db. tracking_code doc \<noteq> code" by (simp add: find_one_None)
next
  fix i assume i: "i < length db"
  show "\<exists>j\<le>i. public_track db (tracking_code (db ! i)) = Inr (j, db ! j)
        \<and> tracking_code (db ! j) = tracking_code (db ! i)
        \<and> ((\<forall>k<i. tracking_code (db ! k) \<noteq> tracking_code (db ! i)) \<longrightarrow> j = i)"
  proof (cases rule: find_one_cases [of db "tracking_code (db ! i)"])
    case absent
    from i have "db ! i \<in> set db" by simp
    with absent(2) have False by blast
    then show ?thesis ..
  next
    case (present j)
    have ji: "j \<le> i"
    proof (rule ccontr)
      assume "\<not> j \<le> i"
      then have "i < j" by simp
      with present(4) show False by blast
    qed
    have pt: "public_track db (tracking_code (db ! i)) = Inr (j, db ! j)"
      using present(1) by (simp add: public_track_def)
    have un: "(\<forall>k<i. tracking_code (db ! k) \<noteq> tracking_code (db ! i)) \<longrightarrow> j = i"
    proof
      assume "\<forall>k<i. tracking_code (db ! k) \<noteq> tracking_code (db ! i)"
      with present(3) have "\<not> j < i" by blast
      with ji show "j = i" by simp
    qed
    from ji pt present(3) un show ?thesis
      by (intro exI [of _ j] conjI)
  qed
qed

theorem public_track_not_found_or_full_record_witness:
  "public_track [doc0] ''CC-00000000-0000'' = Inl (HTTPException 404 ''Tracking Number Not Found'')
   \<and> public_track [doc0] ''CC-20261104-1480'' = Inr (0, doc0)"
proof -
  note T = public_track_not_found_or_full_record [of "[doc0]" "''CC-00000000-0000''"]
  have c: "tracking_code doc0 = ''CC-20261104-1480''" by (simp add: doc0_def)
  then have n: "\<forall>doc \<in> set [doc0]. tracking_code doc \<noteq> ''CC-00000000-0000''" by simp
  from T have "(\<forall>doc \<in> set [doc0]. tracking_code doc \<noteq> ''CC-00000000-0000'') \<longrightarrow>
      public_track [doc0] ''CC-00000000-0000'' = Inl (HTTPException 404 ''Tracking Number Not Found'')"
    by (rule conjunct1)
  from this n
  have a: "public_track [doc0] ''CC-00000000-0000'' = Inl (HTTPException 404 ''Tracking Number Not Found'')"
    by (rule mp)
  from T have "\<forall>i<length [doc0]. \<exists>j\<le>i.
        public_track [doc0] (tracking_code ([doc0] ! i)) = Inr (j, [doc0] ! j)
        \<and> tracking_code ([doc0] ! j) = tracking_code ([doc0] ! i)
        \<and> ((\<forall>k<i. tracking_code ([doc0] ! k) \<noteq> tracking_code ([doc0] ! i)) \<longrightarrow> j = i)"
    by (rule conjunct2 [OF conjunct2])
  then have "\<exists>j\<le>0. public_track [doc0] (tracking_code ([doc0] ! 0)) = Inr (j, [doc0] ! j)
        \<and> tracking_code ([doc0] ! j) = tracking_code ([doc0] ! 0)
        \<and> ((\<forall>k<0. tracking_code ([doc0] ! k) \<noteq> tracking_code ([doc0] ! 0)) \<longrightarrow> j = 0)"
    by (rule allE [of _ 0]) simp
  then obtain j where "j \<le> 0"
    and "public_track [doc0] (tracking_code ([doc0] ! 0)) = Inr (j, [doc0] ! j)"
    by blast
  then have "public_track [doc0] ''CC-20261104-1480'' = Inr (0, doc0)"
    using c by simp
  with a show ?thesis by (rule conjI)
qed


section \<open>Proof of delivery (C5)\<close>

text \<open>
  C5. The upload handler never looks the tracking code up before it answers: it writes
  the file under \<open>logs/<code>-<filename>\<close> and returns the reference
  \<open>/logs/<code>-<filename>\<close> for every code. When no stored document carries the code
  the collection is left as it is and the request still succeeds; otherwise the first
  document with the code gets the reference as its \<open>proof_of_delivery_url\<close>.
\<close>

theorem upload_proof_succeeds_for_every_code:
  "(\<exists>w'. upload_proof w code filename content = Inr (w', ''/logs/'' @ code @ ''-'' @ filename)
       \<and> files w' (''logs/'' @ code @ ''-'' @ filename) = Some content
       \<and> ((\<forall>doc \<in> set (shipment w). tracking_code doc \<noteq> code) \<longrightarrow> shipment w' = shipment w)
       \<and> ((\<exists>doc \<in> set (shipment w). tracking_code doc = code) \<longrightarrow>
            (\<exists>i<length (shipment w). tracking_code (shipment w ! i) = code
               \<and> shipment w' = (shipment w)[i := (shipment w ! i)
                     \<lparr>proof_of_delivery_url := Some (''/logs/'' @ code @ ''-'' @ filename)\<rparr>])))"
proof -
  let ?url = "''/logs/'' @ code @ ''-'' @ filename"
  from upload_proof_result [of w code filename content] obtain w' where
    w': "upload_proof w code filename content = Inr (w', ?url)"
      "files w' = (files w)(''logs/'' @ code @ ''-'' @ filename \<mapsto> content)"
      "shipment w' = update_one_by_tracking_code (shipment w) code
          (no_updates\<lparr>set_proof_of_delivery_url := Some ?url\<rparr>)"
    by blast
  have f: "files w' (''logs/'' @ code @ ''-'' @ filename) = Some content"
    by (simp add: w'(2))
  have a: "(\<forall>doc \<in> set (shipment w). tracking_code doc \<noteq> code) \<longrightarrow> shipment w' = shipment w"
    by (simp add: w'(3) update_one_by_tracking_code_def find_one_None [symmetric])
  have b: "(\<exists>doc \<in> set (shipment w). tracking_code doc = code) \<longrightarrow>
            (\<exists>i<length (shipment w). tracking_code (shipment w ! i) = code
               \<and> shipment w' = (shipment w)[i := (shipment w ! i)
                     \<lparr>proof_of_delivery_url := Some ?url\<rparr>])"
  proof (cases rule: find_one_cases [of "shipment w" code])
    case absent
    then show ?thesis by blast
  next
    case (present i)
    have "shipment w' = (shipment w)[i := (shipment w ! i)\<lparr>proof_of_delivery_url := Some ?url\<rparr>]"
      by (simp add: w'(3) update_one_by_tracking_code_def present(1) apply_set_def no_updates_def)
    with present(2,3) show ?thesis by blast
  qed
  from w'(1) f a b show ?thesis by blast
qed

theorem upload_proof_succeeds_for_every_code_witness:
  "upload_proof \<lparr>shipment = [], files = Map.empty\<rparr> ''CC-00000000-0000'' ''pod.png'' ''PNG''
     = Inr (\<lparr>shipment = [], files = [''logs/CC-00000000-0000-pod.png'' \<mapsto> ''PNG'']\<rparr>,
            ''/logs/CC-00000000-0000-pod.png'')
   \<and> upload_proof \<lparr>shipment = [], files = Map.empty\<rparr> ''CC-00000000-0000'' ''pod.png'' ''PNG''
     \<noteq> Inl (HTTPException 404 ''Shipment not found'')"
proof -
  let ?w = "\<lparr>shipment = [], files = Map.empty\<rparr> :: world"
  from upload_proof_succeeds_for_every_code [of ?w "''CC-00000000-0000''" "''pod.png''" "''PNG''"]
  obtain w' where w': "upload_proof ?w ''CC-00000000-0000'' ''pod.png'' ''PNG''
      = Inr (w', ''/logs/'' @ ''CC-00000000-0000'' @ ''-'' @ ''pod.png'')"
    by blast
  have e: "upload_proof ?w ''CC-00000000-0000'' ''pod.png'' ''PNG''
     = Inr (\<lparr>shipment = [], files = [''logs/CC-00000000-0000-pod.png'' \<mapsto> ''PNG'']\<rparr>,
            ''/logs/CC-00000000-0000-pod.png'')"
    by (simp add: upload_proof_def update_one_by_tracking_code_def find_one_by_tracking_code_def
        Let_def)
  from w' e show ?thesis by simp
qed


section \<open>Notification (C6)\<close>

text \<open>
  C6, as the code has it. When the port setting parses: with host, user or password
  missing or empty, \<open>send_email\<close> returns \<open>False\<close> and opens no connection; with all
  three present it opens one connection and returns \<open>True\<close> when the transport runs
  through, and the transport's exception otherwise. \<open>notify_receiver\<close> answers 404 for
  an unknown code and otherwise returns what \<open>send_email\<close> returns for the first document
  with the code, the exception included.
\<close>

theorem notification_outcomes:
  assumes "py_int (case SMTP_PORT env of None \<Rightarrow> ''587'' | Some s \<Rightarrow> s) = Some port"
  shows "(\<not> (truthy (SMTP_HOST env) \<and> truthy (SMTP_USER env) \<and> truthy (SMTP_PASS env)) \<longrightarrow>
        send_email env smtp to_email subject body = (Inr False, []))
    \<and> (\<forall>host user password.
          SMTP_HOST env = Some host \<and> host \<noteq> [] \<and> SMTP_USER env = Some user \<and> user \<noteq> []
          \<and> SMTP_PASS env = Some password \<and> password \<noteq> [] \<longrightarrow>
          send_email env smtp to_email subject body =
            (if smtp host port user password
                  \<lparr>msg_from = user, msg_to = to_email, msg_subject = subject, msg_content = body\<rparr>
             then (Inr True, [(host, port)]) else (Inl SMTPError, [(host, port)])))
    \<and> ((\<forall>doc \<in> set db. tracking_code doc \<noteq> code) \<longrightarrow>
          notify_receiver env smtp db code = (Inl (HTTPException 404 ''Shipment not found''), []))
    \<and> ((\<exists>doc \<in> set db. tracking_code doc = code) \<longrightarrow>
          (\<exists>i<length db. tracking_code (db ! i) = code
             \<and> (\<exists>subject' body'. notify_receiver env smtp db code
                    = send_email env smtp (receiver_email (db ! i)) subject' body')))"
proof (intro conjI allI impI)
  assume "\<not> (truthy (SMTP_HOST env) \<and> truthy (SMTP_USER env) \<and> truthy (SMTP_PASS env))"
  with assms show "send_email env smtp to_email subject body = (Inr False, [])"
    by (rule send_email_unconfigured)
next
  fix host user password
  assume "SMTP_HOST env = Some host \<and> host \<noteq> [] \<and> SMTP_USER env = Some user \<and> user \<noteq> []
          \<and> SMTP_PASS env = Some password \<and> password \<noteq> []"
  then show "send_email env smtp to_email subject body =
            (if smtp host port user password
                  \<lparr>msg_from = user, msg_to = to_email, msg_subject = subject, msg_content = body\<rparr>
             then (Inr True, [(host, port)]) else (Inl SMTPError, [(host, port)]))"
    using send_email_configured [OF assms, of host user password] by blast
next
  assume "\<forall>doc \<in> set db. tracking_code doc \<noteq> code"
  then have "find_one_by_tracking_code db code = None" by (simp add: find_one_None)
  then show "notify_receiver env smtp db code = (Inl (HTTPException 404 ''Shipment not found''), [])"
    by (simp add: notify_receiver_def)
next
  assume ex: "\<exists>doc \<in> set db. tracking_code doc = code"
  show "\<exists>i<length db. tracking_code (db ! i) = code
             \<and> (\<exists>subject' body'. notify_receiver env smtp db code
                    = send_email env smtp (receiver_email (db ! i)) subject' body')"
  proof (cases rule: find_one_cases [of db code])
    case absent
    with ex show ?thesis by blast
  next
    case (present i)
    have "\<exists>subject' body'. notify_receiver env smtp db code
                    = send_email env smtp (receiver_email (db ! i)) subject' body'"
      by (simp add: notify_receiver_def present(1) Let_def) blast
    with present(2,3) show ?thesis by blast
  qed
qed

theorem notification_outcomes_witness:
  "send_email env_unconfigured smtp_up ''bob@example.com'' ''s'' ''b'' = (Inr False, [])
   \<and> send_email env_configured smtp_up ''bob@example.com'' ''s'' ''b''
       = (Inr True, [(''smtp.example.com'', 587)])"
proof -
  have p: "py_int (case SMTP_PORT env_unconfigured of None \<Rightarrow> ''587'' | Some s \<Rightarrow> s) = Some 587"
    "py_int (case SMTP_PORT env_configured of None \<Rightarrow> ''587'' | Some s \<Rightarrow> s) = Some 587"
    by (simp_all add: env_unconfigured_def env_configured_def py_int_587)
  have a: "send_email env_unconfigured smtp_up ''bob@example.com'' ''s'' ''b'' = (Inr False, [])"
    using notification_outcomes [OF p(1), of smtp_up "''bob@example.com''" "''s''" "''b''"]
    by (simp add: env_unconfigured_def truthy_def)
  have b: "send_email env_configured smtp_up ''bob@example.com'' ''s'' ''b''
       = (Inr True, [(''smtp.example.com'', 587)])"
    by (simp add: send_email_env_configured smtp_up_def)
  from a b show ?thesis by (rule conjI)
qed

text \<open>
  C6, as the claim states it, fails: with the transport configured and the mail server
  refusing, the notify request for a stored shipment ends in the transport's exception,
  not in a sent-false result.
\<close>

theorem notification_failure_is_raised:
  "notify_receiver env_configured smtp_down [doc0] ''CC-20261104-1480''
     = (Inl SMTPError, [(''smtp.example.com'', 587)])
   \<and> fst (notify_receiver env_configured smtp_down [doc0] ''CC-20261104-1480'') \<noteq> Inr False"
proof -
  have f: "find_one_by_tracking_code [doc0] ''CC-20261104-1480'' = Some (0, doc0)"
    by (simp add: find_one_Some doc0_def)
  have "notify_receiver env_configured smtp_down [doc0] ''CC-20261104-1480''
     = (Inl SMTPError, [(''smtp.example.com'', 587)])"
    by (simp add: notify_receiver_def f Let_def send_email_env_configured smtp_down_def)
  then show ?thesis by simp
qed


section \<open>Listing (C7)\<close>

text \<open>
  C7. The listing returns at most 200 of the stored documents (all of them when there are
  no more than 200), ordered by \<open>last_update\<close> from the latest to the earliest; a
  document it leaves out is no later than any it returns.
\<close>

theorem list_at_most_200_sorted_descending:
  "length (list_shipments db) \<le> 200
   \<and> length (list_shipments db) = min 200 (length db)
   \<and> sorted_wrt (\<lambda>a b. last_update_key (snd a) \<ge> last_update_key (snd b)) (list_shipments db)
   \<and> set (list_shipments db) \<subseteq> set (enumerate 0 db)
   \<and> (\<forall>x \<in> set (enumerate 0 db) - set (list_shipments db). \<forall>y \<in> set (list_shipments db).
         last_update_key (snd x) \<le> last_update_key (snd y))"
proof -
  let ?k = "\<lambda>it :: nat \<times> Shipment. last_update_key (snd it)"
  let ?s = "sort_key ?k (enumerate 0 db)"
  have "sorted (map ?k ?s)" by (rule sorted_sort_key)
  then have "sorted_wrt (\<lambda>a b. ?k a \<le> ?k b) ?s"
    by (simp add: sorted_wrt_map)
  then have r: "sorted_wrt (\<lambda>a b. ?k b \<le> ?k a) (rev ?s)"
    by (simp add: sorted_wrt_rev)
  then have s: "sorted_wrt (\<lambda>a b. ?k b \<le> ?k a) (take 200 (rev ?s))"
    by (rule sorted_wrt_take)
  have "set (take 200 (rev ?s)) \<subseteq> set (rev ?s)" by (rule set_take_subset)
  then have m: "set (take 200 (rev ?s)) \<subseteq> set (enumerate 0 db)" by simp
  from r have "sorted_wrt (\<lambda>a b. ?k b \<le> ?k a) (take 200 (rev ?s) @ drop 200 (rev ?s))"
    by simp
  then have cross: "\<forall>y \<in> set (take 200 (rev ?s)). \<forall>x \<in> set (drop 200 (rev ?s)). ?k x \<le> ?k y"
    unfolding sorted_wrt_append by blast
  have "set (enumerate 0 db) = set (take 200 (rev ?s) @ drop 200 (rev ?s))"
    by simp
  then have "set (enumerate 0 db) - set (take 200 (rev ?s)) \<subseteq> set (drop 200 (rev ?s))"
    unfolding set_append by blast
  with cross have t: "\<forall>x \<in> set (enumerate 0 db) - set (take 200 (rev ?s)).
      \<forall>y \<in> set (take 200 (rev ?s)). ?k x \<le> ?k y"
    by blast
  have l: "length (take 200 (rev ?s)) = min 200 (length db)" by simp
  from l s m t show ?thesis
    unfolding list_shipments_def by simp
qed

theorem list_at_most_200_sorted_descending_witness:
  "map fst (list_shipments [doc0, doc0\<lparr>last_update := Some t2\<rparr>, doc0\<lparr>last_update := Some t1\<rparr>])
     = [1, 2, 0]
   \<and> length (list_shipments (replicate 250 doc0)) = 200"
proof -
  have a: "map fst (list_shipments [doc0, doc0\<lparr>last_update := Some t2\<rparr>, doc0\<lparr>last_update := Some t1\<rparr>])
     = [1, 2, 0]"
    by (simp add: list_shipments_def enumerate_three last_update_key_samples)
  have "length (list_shipments (replicate 250 doc0)) = min 200 (length (replicate 250 doc0))"
    using list_at_most_200_sorted_descending [of "replicate 250 doc0"] by (rule conjunct1 [OF conjunct2])
  then have "length (list_shipments (replicate 250 doc0)) = 200"
    by (simp only: length_replicate)
  with a show ?thesis by (rule conjI)
qed


section \<open>Tracking code (C8)\<close>




section \<open>Login (C9)\<close>



text \<open>
  What the password check raises reaches the caller: the right identity with a secret the
  check refuses fails with the check's exception, whatever the check is.
\<close>

lemma login_verify_raises:
  "pwd_verify password (ADMIN_HASH cfg) = Inl e \<Longrightarrow>
     login pwd_verify jwt_encode cfg (ADMIN_EMAIL cfg) password now = Inl e"
  by (simp add: login_def verify_password_def)



section \<open>Status and timeline agree (C10)\<close>

text \<open>
  C10. Whatever requests run against an empty store, every stored shipment has a non-empty
  timeline whose last entry carries the shipment's status; more generally the requests
  keep this property of a store.
\<close>

theorem status_is_last_timeline_entry:
  "(\<forall>doc \<in> set (shipment (serve email_ok \<lparr>shipment = [], files = fs\<rparr> reqs)).
       timeline doc \<noteq> [] \<and> te_status (last (timeline doc)) = status doc)
   \<and> (status_matches_timeline (shipment w) \<longrightarrow>
        status_matches_timeline (shipment (serve email_ok w reqs)))"
proof -
  have "status_matches_timeline (shipment \<lparr>shipment = [], files = fs\<rparr>)"
    by (simp add: status_matches_timeline_def)
  from serve_status_matches [OF this, of email_ok reqs]
  have a: "\<forall>doc \<in> set (shipment (serve email_ok \<lparr>shipment = [], files = fs\<rparr> reqs)).
       timeline doc \<noteq> [] \<and> te_status (last (timeline doc)) = status doc"
    by (simp add: status_matches_timeline_def list_all_iff)
  have b: "status_matches_timeline (shipment w) \<longrightarrow>
        status_matches_timeline (shipment (serve email_ok w reqs))"
    by (simp add: serve_status_matches)
  from a b show ?thesis by (rule conjI)
qed

theorem status_is_last_timeline_entry_witness:
  "shipment (serve has_at \<lparr>shipment = [], files = Map.empty\<rparr> (ReqCreate payload0 t0 t0 t0 # reqs0)) \<noteq> []
   \<and> status (hd (shipment (serve has_at \<lparr>shipment = [], files = Map.empty\<rparr> (ReqCreate payload0 t0 t0 t0 # reqs0))))
       = Delivered
   \<and> te_status (last (timeline (hd (shipment (serve has_at \<lparr>shipment = [], files = Map.empty\<rparr>
        (ReqCreate payload0 t0 t0 t0 # reqs0)))))) = Delivered"
proof -
  let ?db = "shipment (serve has_at \<lparr>shipment = [], files = Map.empty\<rparr> (ReqCreate payload0 t0 t0 t0 # reqs0))"
  have v: "fields_valid has_at payload0"
    by (simp add: fields_valid_def has_at_def payload0_def)
  have l: "length ?db = 1 \<and> status (hd ?db) = Delivered"
    using v
    by (simp add: serve_def reqs0_def create_shipment_def insert_one_def Let_def
        update_shipment_def find_one_by_tracking_code_def find_one_by_id_def
        update_one_by_id_def apply_set_def no_updates_def fields_valid_def)
  then have ne: "?db \<noteq> []" by auto
  then have "hd ?db \<in> set ?db" by simp
  with status_is_last_timeline_entry [of has_at Map.empty "ReqCreate payload0 t0 t0 t0 # reqs0"]
  have "te_status (last (timeline (hd ?db))) = status (hd ?db)" by blast
  with l ne show ?thesis by simp
qed

end
